theory Spec2Isabelle
  imports Complex_Main
begin

section \<open>The habitability scorer of \<^verbatim>\<open>backend/server.py\<close>\<close>

text \<open>
  The function \<^verbatim>\<open>calculate_planetary_parameters(D, M, T, P, W, B, theta, R, G, X)\<close>
  validates ten numbers, computes six factors and a score, and returns a dictionary.

  Numbers: Python computes lines 57 to 85 in IEEE-754 binary64. The theory carries two
  readings of that arithmetic, both translated from the same source lines.

  \<^item> The exact reading, \<open>calculate_planetary_parameters\<close>: every operation is exact
    over the real numbers. This is the arithmetic in which the specification argues
    ("algebraically", "under exact arithmetic"). It agrees with the code on the
    exception that validation raises, on the echoed entries and on a factor \<open>W\<close>,
    \<open>B\<close> or \<open>G\<close> that is zero.

  \<^item> The binary64 reading, \<open>calculate_planetary_parameters_f64\<close>: every operation
    rounds to the nearest double, ties to even, overflows to an infinity and underflows
    to a subnormal number or to zero. This is what the code computes, and the two
    readings part where a result overflows or underflows (claims C1 and C9, lemma
    \<open>upper_boundary_X_raises\<close>).

  Exceptions are values: the function returns \<open>Inl\<close> of the exception raised, or
  \<open>Inr\<close> of the dictionary returned.
\<close>

subsection \<open>Exceptions, dictionary values\<close>

datatype error = ValueError string | ZeroDivisionError | OverflowError

datatype pyval = Num real | Str string

text \<open>
  The dictionary literal of the source, in insertion order, as an association list.
\<close>

type_synonym report = "(string \<times> pyval) list"

text \<open>
  Two characters of the source's string literals are not ASCII: the Greek letter theta
  and the degree sign. They are written as their UTF-8 bytes.
\<close>

definition theta_utf8 :: string where
  "theta_utf8 = [CHR 0xCE, CHR 0xB8]"

definition degree_utf8 :: string where
  "degree_utf8 = [CHR 0xC2, CHR 0xB0]"

subsection \<open>The messages of the ten range checks\<close>

definition msg_D :: string where
  "msg_D = ''Distance from Sun (D) must be between 0.3 and 30 AU.''"

definition msg_M :: string where
  "msg_M = ''Planetary Mass (M) must be between 0.1 and 300 Earth masses.''"

definition msg_T :: string where
  "msg_T = ''Surface Temperature (T) must be between 50 and 900 K.''"

definition msg_P :: string where
  "msg_P = ''Atmospheric Pressure (P) must be between 10^-5 and 100 bars.''"

definition msg_W :: string where
  "msg_W = ''Water Presence (W) must be either 0 (No) or 1 (Yes).''"

definition msg_B :: string where
  "msg_B = ''Magnetic Field Strength (B) must be between 0 and 15 G.''"

definition msg_theta :: string where
  "msg_theta = ''Axial Tilt ('' @ theta_utf8 @ '') must be between 0 and 98 degrees.''"

definition msg_R :: string where
  "msg_R = ''Rotation Speed (R) must be between 1 and 5832 hours.''"

definition msg_G :: string where
  "msg_G = ''Geological Activity (G) must be between 0 and 1.''"

definition msg_X :: string where
  "msg_X = ''Radiation Levels (X) must be between 0.01 and 1000 Sv.''"

subsection \<open>Input validation (lines 35 to 54)\<close>

text \<open>
  The ten \<^verbatim>\<open>if not (...): raise ValueError(...)\<close> statements, in the order of the
  source. \<open>None\<close> means that no check raised.
\<close>

definition validate ::
  "real \<Rightarrow> real \<Rightarrow> real \<Rightarrow> real \<Rightarrow> real \<Rightarrow> real \<Rightarrow> real \<Rightarrow> real \<Rightarrow> real \<Rightarrow> real \<Rightarrow> error option"
where
  "validate D M T P W B \<theta> R G X =
    (if \<not> (0.3 \<le> D \<and> D \<le> 30) then Some (ValueError msg_D)
     else if \<not> (0.1 \<le> M \<and> M \<le> 300) then Some (ValueError msg_M)
     else if \<not> (50 \<le> T \<and> T \<le> 900) then Some (ValueError msg_T)
     else if \<not> (1 / 10 ^ 5 \<le> P \<and> P \<le> 100) then Some (ValueError msg_P)
     else if W \<notin> set [0, 1] then Some (ValueError msg_W)
     else if \<not> (0 \<le> B \<and> B \<le> 15) then Some (ValueError msg_B)
     else if \<not> (0 \<le> \<theta> \<and> \<theta> \<le> 98) then Some (ValueError msg_theta)
     else if \<not> (1 \<le> R \<and> R \<le> 5832) then Some (ValueError msg_R)
     else if \<not> (0 \<le> G \<and> G \<le> 1) then Some (ValueError msg_G)
     else if \<not> (0.01 \<le> X \<and> X \<le> 1000) then Some (ValueError msg_X)
     else None)"

subsection \<open>Exact reading: reference value and the six factors (lines 57 to 65)\<close>

text \<open>
  The factors over the reals. In this reading \<open>f_X\<close> is positive for every \<open>X\<close>; the
  code's \<^verbatim>\<open>math.exp(-X)\<close> is a double, and is zero for large \<open>X\<close> (\<open>f_X_f64\<close> below,
  lemma \<open>f_X_f64_1000\<close>).
\<close>

definition T_E :: real where
  "T_E = 288"

definition f_T :: "real \<Rightarrow> real" where
  "f_T T = min 1 (max 0 (exp (- \<bar>T - T_E\<bar> / T_E)))"

definition f_P :: "real \<Rightarrow> real" where
  "f_P P = P / (1 + P)"

definition f_W :: "real \<Rightarrow> real" where
  "f_W W = W"

definition f_B :: "real \<Rightarrow> real" where
  "f_B B = B / (B + 1)"

definition f_G :: "real \<Rightarrow> real" where
  "f_G G = G"

definition f_X :: "real \<Rightarrow> real" where
  "f_X X = exp (- X)"

text \<open>
  The product whose reciprocal is taken at line 68, over the reals. The code's product
  is the chain of rounded multiplications inside \<open>calculate_planetary_parameters_f64\<close>.
\<close>

definition factor_product :: "real \<Rightarrow> real \<Rightarrow> real \<Rightarrow> real \<Rightarrow> real \<Rightarrow> real \<Rightarrow> real" where
  "factor_product T P W B G X = f_T T * f_P P * f_W W * f_B B * f_G G * f_X X"

subsection \<open>Rounding to two decimals\<close>

text \<open>
  \<^verbatim>\<open>round(x, 2)\<close>: the nearest multiple of one hundredth, a tie going to the even
  multiple.
\<close>

definition py_round2 :: "real \<Rightarrow> real" where
  "py_round2 x =
    (let y = x * 100;
         f = \<lfloor>y\<rfloor>;
         d = y - of_int f
     in (if d < 1 / 2 then of_int f
         else if 1 / 2 < d then of_int (f + 1)
         else if even f then of_int f
         else of_int (f + 1)) / 100)"

subsection \<open>The dictionary returned (lines 74 to 86)\<close>

definition results ::
  "real \<Rightarrow> real \<Rightarrow> real \<Rightarrow> real \<Rightarrow> real \<Rightarrow> real \<Rightarrow> real \<Rightarrow> real \<Rightarrow> real \<Rightarrow> real \<Rightarrow> real \<Rightarrow> report"
where
  "results D M T P W B \<theta> R G X P_L =
    [(''Distance from Sun (AU)'', Num D),
     (''Planetary Mass (Earth Masses)'', Num M),
     (''Surface Temperature (K)'', Num T),
     (''Atmospheric Pressure (bars)'', Num P),
     (''Water Presence'', Str (if W = 1 then ''Yes'' else ''No'')),
     (''Magnetic Field Strength (G)'', Num B),
     (''Axial Tilt ('' @ degree_utf8 @ '')'', Num \<theta>),
     (''Rotation Speed (hours)'', Num R),
     (''Geological Activity'', Num G),
     (''Radiation Levels (Sv)'', Num X),
     (''Habitability Probability (0-100)'', Num (py_round2 P_L))]"

subsection \<open>Exact reading: the function\<close>

text \<open>
  The function with exact arithmetic. Where no step of the code overflows or underflows
  this is the code up to rounding in the last place; where one does, the code is
  \<open>calculate_planetary_parameters_f64\<close> below.

  Line 68 divides \<open>1\<close> by the product of the factors: Python raises
  \<^verbatim>\<open>ZeroDivisionError\<close> when the product is zero. The divisions of lines 61 and 63
  have the denominators \<open>1 + P\<close> and \<open>B + 1\<close>, which are positive once the checks
  have passed (lemma \<open>denominators_positive\<close> below).
\<close>

definition calculate_planetary_parameters ::
  "real \<Rightarrow> real \<Rightarrow> real \<Rightarrow> real \<Rightarrow> real \<Rightarrow> real \<Rightarrow> real \<Rightarrow> real \<Rightarrow> real \<Rightarrow> real \<Rightarrow> error + report"
where
  "calculate_planetary_parameters D M T P W B \<theta> R G X =
    (case validate D M T P W B \<theta> R G X of
       Some e \<Rightarrow> Inl e
     | None \<Rightarrow>
        (if f_T T * f_P P * f_W W * f_B B * f_G G * f_X X = 0 then Inl ZeroDivisionError
         else
           let C = 1 / (f_T T * f_P P * f_W W * f_B B * f_G G * f_X X);
               P_L = 100 * C * f_T T * f_P P * f_W W * f_B B * f_G G * f_X X
           in Inr (results D M T P W B \<theta> R G X P_L)))"

text \<open>Reading a key of the returned dictionary.\<close>

definition lookup :: "report \<Rightarrow> string \<Rightarrow> pyval option" where
  "lookup r k = map_of r k"

definition key_probability :: string where
  "key_probability = ''Habitability Probability (0-100)''"

subsection \<open>Binary64 reading: the numbers\<close>

text \<open>
  A double is a finite number, an infinity or a NaN. \<open>Fin x\<close> stands for the double of
  value \<open>x\<close>; the two zeros are one value, since the code never looks at the sign of a
  zero (\<^verbatim>\<open>1 / 0.0\<close> and \<^verbatim>\<open>1 / -0.0\<close> both raise).
\<close>

datatype f64 = Fin real | PInf | NInf | NaN

text \<open>The nearest integer, a tie going to the even one.\<close>

definition round_half_even :: "real \<Rightarrow> int" where
  "round_half_even y =
    (let f = \<lfloor>y\<rfloor>; d = y - of_int f
     in if d < 1 / 2 then f
        else if 1 / 2 < d then f + 1
        else if even f then f
        else f + 1)"

text \<open>
  The exponent of the binade of \<open>x\<close>, not below that of the subnormal numbers. The
  doubles of a binade \<open>e\<close> are the multiples of \<open>2 ^ (e - 52)\<close>.
\<close>

definition binade :: "real \<Rightarrow> int" where
  "binade x = max \<lfloor>log 2 \<bar>x\<bar>\<rfloor> (- 1022)"

text \<open>
  Rounding a real result to binary64: to the nearest multiple of the unit of its binade,
  ties to even; a result that rounds to \<open>2 ^ 1024\<close> or beyond is an infinity.
\<close>

definition rnd :: "real \<Rightarrow> f64" where
  "rnd x =
    (if x = 0 then Fin 0
     else
       let q = 2 powr of_int (binade x - 52);
           y = of_int (round_half_even (x / q)) * q
       in if 2 ^ 1024 \<le> \<bar>y\<bar> then (if 0 < x then PInf else NInf) else Fin y)"

subsection \<open>Binary64 reading: the operations the source uses\<close>

fun fneg :: "f64 \<Rightarrow> f64" where
  "fneg (Fin a) = Fin (- a)"
| "fneg PInf = NInf"
| "fneg NInf = PInf"
| "fneg NaN = NaN"

fun fabs :: "f64 \<Rightarrow> f64" where
  "fabs (Fin a) = Fin \<bar>a\<bar>"
| "fabs PInf = PInf"
| "fabs NInf = PInf"
| "fabs NaN = NaN"

fun fsgn :: "f64 \<Rightarrow> real" where
  "fsgn (Fin a) = sgn a"
| "fsgn PInf = 1"
| "fsgn NInf = - 1"
| "fsgn NaN = 0"

text \<open>The infinity of a sign; the sign \<open>0\<close> (infinity times zero) is a NaN.\<close>

definition inf_of_sign :: "real \<Rightarrow> f64" where
  "inf_of_sign s = (if 0 < s then PInf else if s < 0 then NInf else NaN)"

fun fadd :: "f64 \<Rightarrow> f64 \<Rightarrow> f64" where
  "fadd (Fin a) (Fin b) = rnd (a + b)"
| "fadd NaN b = NaN"
| "fadd a NaN = NaN"
| "fadd PInf NInf = NaN"
| "fadd NInf PInf = NaN"
| "fadd PInf b = PInf"
| "fadd NInf b = NInf"
| "fadd a b = b"

definition fsub :: "f64 \<Rightarrow> f64 \<Rightarrow> f64" where
  "fsub a b = fadd a (fneg b)"

fun fmul :: "f64 \<Rightarrow> f64 \<Rightarrow> f64" where
  "fmul (Fin a) (Fin b) = rnd (a * b)"
| "fmul NaN b = NaN"
| "fmul a NaN = NaN"
| "fmul a b = inf_of_sign (fsgn a * fsgn b)"

text \<open>
  Python's \<^verbatim>\<open>/\<close> on floats raises \<^verbatim>\<open>ZeroDivisionError\<close> when the divisor is zero,
  whatever the dividend; a quotient that overflows is an infinity and raises nothing.
\<close>

fun fdiv :: "f64 \<Rightarrow> f64 \<Rightarrow> error + f64" where
  "fdiv a (Fin b) =
    (if b = 0 then Inl ZeroDivisionError
     else case a of
       Fin x \<Rightarrow> Inr (rnd (x / b))
     | NaN \<Rightarrow> Inr NaN
     | _ \<Rightarrow> Inr (inf_of_sign (fsgn a * sgn b)))"
| "fdiv a NaN = Inr NaN"
| "fdiv (Fin x) b = Inr (Fin 0)"
| "fdiv a b = Inr NaN"

text \<open>The comparison \<^verbatim>\<open><\<close>, false whenever an operand is a NaN.\<close>

fun flt :: "f64 \<Rightarrow> f64 \<Rightarrow> bool" where
  "flt (Fin a) (Fin b) = (a < b)"
| "flt NaN b = False"
| "flt a NaN = False"
| "flt a NInf = False"
| "flt PInf b = False"
| "flt a b = True"

text \<open>
  \<^verbatim>\<open>max(a, b)\<close> keeps \<open>a\<close> unless \<open>b > a\<close>; \<^verbatim>\<open>min(a, b)\<close> keeps \<open>a\<close> unless
  \<open>b < a\<close>.
\<close>

definition py_max :: "f64 \<Rightarrow> f64 \<Rightarrow> f64" where
  "py_max a b = (if flt a b then b else a)"

definition py_min :: "f64 \<Rightarrow> f64 \<Rightarrow> f64" where
  "py_min a b = (if flt b a then b else a)"

text \<open>
  \<^verbatim>\<open>math.exp\<close>: the exponential rounded to binary64. It raises \<^verbatim>\<open>OverflowError\<close>
  when the result overflows and returns zero, silently, when it underflows. The C
  library's result may differ from the correctly rounded one in the last place; the
  evaluations below bound the result within factors of two and do not depend on that
  place.
\<close>

fun math_exp :: "f64 \<Rightarrow> error + f64" where
  "math_exp (Fin x) = (case rnd (exp x) of PInf \<Rightarrow> Inl OverflowError | y \<Rightarrow> Inr y)"
| "math_exp PInf = Inr PInf"
| "math_exp NInf = Inr (Fin 0)"
| "math_exp NaN = Inr NaN"

text \<open>
  \<^verbatim>\<open>round(x, 2)\<close> on a double: the two-decimal rounding of its exact value, as a
  double; an infinity and a NaN are returned as they are.
\<close>

fun py_round2_f64 :: "f64 \<Rightarrow> f64" where
  "py_round2_f64 (Fin x) = rnd (py_round2 x)"
| "py_round2_f64 a = a"

text \<open>An exception raised by a step ends the call.\<close>

definition bind_e :: "error + 'a \<Rightarrow> ('a \<Rightarrow> error + 'b) \<Rightarrow> error + 'b" where
  "bind_e m f = (case m of Inl e \<Rightarrow> Inl e | Inr x \<Rightarrow> f x)"

subsection \<open>Binary64 reading: factors, dictionary and function\<close>

text \<open>
  The arguments are finite numbers that binary64 holds exactly (a Python \<^verbatim>\<open>int\<close> in
  the validated ranges converts without rounding), so an argument \<open>x\<close> enters the
  arithmetic as \<open>Fin x\<close>, and the range checks, which compare without rounding, are
  those of \<open>validate\<close>.
\<close>

datatype pyval_f64 = FNum f64 | FStr string

type_synonym report_f64 = "(string \<times> pyval_f64) list"

definition f_T_f64 :: "real \<Rightarrow> error + f64" where
  "f_T_f64 T =
    bind_e (fdiv (fneg (fabs (fsub (Fin T) (Fin T_E)))) (Fin T_E)) (\<lambda>q.
    bind_e (math_exp q) (\<lambda>e.
    Inr (py_min (Fin 1) (py_max (Fin 0) e))))"

definition f_P_f64 :: "real \<Rightarrow> error + f64" where
  "f_P_f64 P = fdiv (Fin P) (fadd (Fin 1) (Fin P))"

definition f_W_f64 :: "real \<Rightarrow> f64" where
  "f_W_f64 W = Fin W"

definition f_B_f64 :: "real \<Rightarrow> error + f64" where
  "f_B_f64 B = fdiv (Fin B) (fadd (Fin B) (Fin 1))"

definition f_G_f64 :: "real \<Rightarrow> f64" where
  "f_G_f64 G = Fin G"

definition f_X_f64 :: "real \<Rightarrow> error + f64" where
  "f_X_f64 X = math_exp (fneg (Fin X))"

definition results_f64 ::
  "real \<Rightarrow> real \<Rightarrow> real \<Rightarrow> real \<Rightarrow> real \<Rightarrow> real \<Rightarrow> real \<Rightarrow> real \<Rightarrow> real \<Rightarrow> real \<Rightarrow> f64 \<Rightarrow> report_f64"
where
  "results_f64 D M T P W B \<theta> R G X P_L =
    [(''Distance from Sun (AU)'', FNum (Fin D)),
     (''Planetary Mass (Earth Masses)'', FNum (Fin M)),
     (''Surface Temperature (K)'', FNum (Fin T)),
     (''Atmospheric Pressure (bars)'', FNum (Fin P)),
     (''Water Presence'', FStr (if W = 1 then ''Yes'' else ''No'')),
     (''Magnetic Field Strength (G)'', FNum (Fin B)),
     (''Axial Tilt ('' @ degree_utf8 @ '')'', FNum (Fin \<theta>)),
     (''Rotation Speed (hours)'', FNum (Fin R)),
     (''Geological Activity'', FNum (Fin G)),
     (''Radiation Levels (Sv)'', FNum (Fin X)),
     (''Habitability Probability (0-100)'', FNum (py_round2_f64 P_L))]"

text \<open>
  Lines 60 to 71 in the order of the source: the six factors, the product multiplied
  from the left, its reciprocal \<open>C\<close>, and \<open>P_L\<close> multiplied from the left starting
  at \<open>100 * C\<close>.
\<close>

definition calculate_planetary_parameters_f64 ::
  "real \<Rightarrow> real \<Rightarrow> real \<Rightarrow> real \<Rightarrow> real \<Rightarrow> real \<Rightarrow> real \<Rightarrow> real \<Rightarrow> real \<Rightarrow> real \<Rightarrow> error + report_f64"
where
  "calculate_planetary_parameters_f64 D M T P W B \<theta> R G X =
    (case validate D M T P W B \<theta> R G X of
       Some e \<Rightarrow> Inl e
     | None \<Rightarrow>
        bind_e (f_T_f64 T) (\<lambda>f_T.
        bind_e (f_P_f64 P) (\<lambda>f_P.
        let f_W = f_W_f64 W in
        bind_e (f_B_f64 B) (\<lambda>f_B.
        let f_G = f_G_f64 G in
        bind_e (f_X_f64 X) (\<lambda>f_X.
        bind_e (fdiv (Fin 1) (fmul (fmul (fmul (fmul (fmul f_T f_P) f_W) f_B) f_G) f_X)) (\<lambda>C.
        let P_L = fmul (fmul (fmul (fmul (fmul (fmul (fmul (Fin 100) C) f_T) f_P) f_W) f_B) f_G) f_X
        in Inr (results_f64 D M T P W B \<theta> R G X P_L)))))))"

definition lookup_f64 :: "report_f64 \<Rightarrow> string \<Rightarrow> pyval_f64 option" where
  "lookup_f64 r k = map_of r k"

subsection \<open>Definitions that follow the specification's wording\<close>

text \<open>
  The specification writes the temperature factor with a function \<open>clamp(x, lo, hi)\<close>;
  the source writes \<^verbatim>\<open>min(1, max(0, x))\<close>. This is the usual clamp.
\<close>

definition clamp :: "real \<Rightarrow> real \<Rightarrow> real \<Rightarrow> real" where
  "clamp x lo hi = (if x < lo then lo else if hi < x then hi else x)"

text \<open>
  The specification's validation: the ten fields are examined in the fixed order
  D, M, T, P, W, B, theta, R, G, X, each against its domain, and the first field out of
  its domain raises, the remaining checks being skipped. \<open>range_checks\<close> is the list
  of the fields in that order, each with whether it lies in its domain and the message
  naming it; \<open>first_violation\<close> walks the list and stops at the first failure.
\<close>

definition range_checks ::
  "real \<Rightarrow> real \<Rightarrow> real \<Rightarrow> real \<Rightarrow> real \<Rightarrow> real \<Rightarrow> real \<Rightarrow> real \<Rightarrow> real \<Rightarrow> real \<Rightarrow> (bool \<times> string) list"
where
  "range_checks D M T P W B \<theta> R G X =
    [(0.3 \<le> D \<and> D \<le> 30, msg_D),
     (0.1 \<le> M \<and> M \<le> 300, msg_M),
     (50 \<le> T \<and> T \<le> 900, msg_T),
     (1 / 10 ^ 5 \<le> P \<and> P \<le> 100, msg_P),
     (W = 0 \<or> W = 1, msg_W),
     (0 \<le> B \<and> B \<le> 15, msg_B),
     (0 \<le> \<theta> \<and> \<theta> \<le> 98, msg_theta),
     (1 \<le> R \<and> R \<le> 5832, msg_R),
     (0 \<le> G \<and> G \<le> 1, msg_G),
     (0.01 \<le> X \<and> X \<le> 1000, msg_X)]"

fun first_violation :: "(bool \<times> string) list \<Rightarrow> error option" where
  "first_violation [] = None"
| "first_violation ((ok, m) # cs) = (if ok then first_violation cs else Some (ValueError m))"

text \<open>The eleven keys of the report, in the order of the dictionary literal.\<close>

definition report_keys :: "string list" where
  "report_keys =
    [''Distance from Sun (AU)'', ''Planetary Mass (Earth Masses)'', ''Surface Temperature (K)'',
     ''Atmospheric Pressure (bars)'', ''Water Presence'', ''Magnetic Field Strength (G)'',
     ''Axial Tilt ('' @ degree_utf8 @ '')'', ''Rotation Speed (hours)'', ''Geological Activity'',
     ''Radiation Levels (Sv)'', ''Habitability Probability (0-100)'']"

section \<open>Helper lemmas\<close>

subsection \<open>Validation\<close>

lemma denominators_positive:
  assumes "validate D M T P W B \<theta> R G X = None"
  shows "0 < 1 + P \<and> 0 < B + 1"
  using assms by (simp add: validate_def split: if_splits)

lemma if_Some_None: "((if c then Some e else r) = None) = (\<not> c \<and> r = None)"
  by simp

lemma validate_None_iff:
  "validate D M T P W B \<theta> R G X = None \<longleftrightarrow>
     (0.3 \<le> D \<and> D \<le> 30) \<and> (0.1 \<le> M \<and> M \<le> 300) \<and> (50 \<le> T \<and> T \<le> 900) \<and>
     (1 / 10 ^ 5 \<le> P \<and> P \<le> 100) \<and> (W = 0 \<or> W = 1) \<and> (0 \<le> B \<and> B \<le> 15) \<and>
     (0 \<le> \<theta> \<and> \<theta> \<le> 98) \<and> (1 \<le> R \<and> R \<le> 5832) \<and> (0 \<le> G \<and> G \<le> 1) \<and>
     (0.01 \<le> X \<and> X \<le> 1000)"
  unfolding validate_def by (simp only: if_Some_None) simp

lemma validate_first_violation:
  "validate D M T P W B \<theta> R G X = first_violation (range_checks D M T P W B \<theta> R G X)"
  by (simp add: validate_def range_checks_def)

text \<open>
  What \<open>first_violation\<close> means: a failing check is reported when every check before it
  passes, whatever the checks after it are.
\<close>

lemma first_violation_earliest:
  "list_all fst pre \<Longrightarrow> first_violation (pre @ (False, m) # post) = Some (ValueError m)"
  by (induction pre) auto

lemma msg_W_distinct:
  "msg_W \<noteq> msg_B" "msg_W \<noteq> msg_theta" "msg_W \<noteq> msg_R" "msg_W \<noteq> msg_G" "msg_W \<noteq> msg_X"
  by (simp_all add: msg_W_def msg_B_def msg_theta_def msg_R_def msg_G_def msg_X_def)

lemma earth_valid: "validate 1 1 288 1 1 0.5 23 24 1 0.01 = None"
  by (simp add: validate_def)

subsection \<open>The factors\<close>

lemma f_T_exp: "f_T T = exp (- \<bar>T - T_E\<bar> / T_E)"
  by (simp add: f_T_def T_E_def)

lemma f_T_pos: "0 < f_T T"
  by (simp add: f_T_exp)

lemma f_T_le_1: "f_T T \<le> 1"
  by (simp add: f_T_def)

lemma f_T_eq_1_iff: "f_T T = 1 \<longleftrightarrow> T = T_E"
  by (simp add: f_T_exp T_E_def)

lemma f_X_pos: "0 < f_X X"
  by (simp add: f_X_def)

lemma f_P_pos: "0 < P \<Longrightarrow> 0 < f_P P"
  by (simp add: f_P_def)

lemma f_B_eq_0_iff: "0 \<le> B \<Longrightarrow> f_B B = 0 \<longleftrightarrow> B = 0"
  by (simp add: f_B_def)

lemma earth_product:
  "f_T 288 * f_P 1 * f_W 1 * f_B 0.5 * f_G 1 * f_X 0.01 \<noteq> 0"
  by (simp add: f_T_exp T_E_def f_P_def f_W_def f_B_def f_G_def f_X_def)

subsection \<open>Rounding\<close>

lemma py_round2_100: "py_round2 100 = 100"
  by (simp add: py_round2_def Let_def)

lemma py_round2_hundredths: "py_round2 x * 100 \<in> \<int>"
  by (simp add: py_round2_def Let_def)

text \<open>Ties go to the even hundredth; other values to the nearest.\<close>

lemma py_round2_examples:
  "py_round2 (1 / 8) = 12 / 100" "py_round2 (3 / 8) = 38 / 100"
  "py_round2 (99996 / 1000) = 100" "py_round2 (2344 / 1000) = 234 / 100"
  "py_round2 (- (1 / 8)) = - (12 / 100)"
  by (simp_all add: py_round2_def Let_def)

subsection \<open>The two outcomes after validation\<close>

lemma P_L_cancel:
  fixes a b c d e f :: real
  assumes "a * b * c * d * e * f \<noteq> 0"
  shows "100 * (1 / (a * b * c * d * e * f)) * a * b * c * d * e * f = 100"
  using assms by (simp add: field_simps)

lemma calculate_success:
  assumes "validate D M T P W B \<theta> R G X = None"
      and "f_T T * f_P P * f_W W * f_B B * f_G G * f_X X \<noteq> 0"
  shows "calculate_planetary_parameters D M T P W B \<theta> R G X =
           Inr (results D M T P W B \<theta> R G X 100)"
  using assms P_L_cancel[OF assms(2)]
  by (simp add: calculate_planetary_parameters_def Let_def)

lemma calculate_degenerate:
  assumes "validate D M T P W B \<theta> R G X = None"
      and "f_T T * f_P P * f_W W * f_B B * f_G G * f_X X = 0"
  shows "calculate_planetary_parameters D M T P W B \<theta> R G X = Inl ZeroDivisionError"
  using assms by (simp add: calculate_planetary_parameters_def)

lemma calculate_ValueError_iff:
  "calculate_planetary_parameters D M T P W B \<theta> R G X = Inl (ValueError m) \<longleftrightarrow>
     validate D M T P W B \<theta> R G X = Some (ValueError m)"
  by (simp add: calculate_planetary_parameters_def Let_def split: option.splits)

lemma calculate_Inr:
  assumes "calculate_planetary_parameters D M T P W B \<theta> R G X = Inr r"
  shows "r = results D M T P W B \<theta> R G X 100"
proof (cases "validate D M T P W B \<theta> R G X")
  case (Some e)
  with assms show ?thesis by (simp add: calculate_planetary_parameters_def)
next
  case None
  show ?thesis
  proof (cases "f_T T * f_P P * f_W W * f_B B * f_G G * f_X X = 0")
    case True
    with None assms show ?thesis by (simp add: calculate_degenerate)
  next
    case False
    with None assms show ?thesis by (simp add: calculate_success)
  qed
qed

lemma earth_success:
  "calculate_planetary_parameters 1 1 288 1 1 0.5 23 24 1 0.01 =
     Inr (results 1 1 288 1 1 0.5 23 24 1 0.01 100)"
  by (rule calculate_success[OF earth_valid earth_product])

subsection \<open>The report\<close>


lemma results_keys:
  "map fst (results D M T P W B \<theta> R G X P_L) = report_keys"
  by (simp add: results_def report_keys_def)

lemma report_keys_distinct: "distinct report_keys \<and> length report_keys = 11"
  by (simp add: report_keys_def degree_utf8_def)

subsection \<open>The specification's examples of the distance check\<close>

lemma distance_examples:
  "calculate_planetary_parameters 0.29 1 288 1 1 0.5 23 24 1 0.01 = Inl (ValueError msg_D)"
  "calculate_planetary_parameters 30.01 1 288 1 1 0.5 23 24 1 0.01 = Inl (ValueError msg_D)"
  "calculate_planetary_parameters 0.3 1 288 1 1 0.5 23 24 1 0.01 =
     Inr (results 0.3 1 288 1 1 0.5 23 24 1 0.01 100)"
  "calculate_planetary_parameters 30 1 288 1 1 0.5 23 24 1 0.01 =
     Inr (results 30 1 288 1 1 0.5 23 24 1 0.01 100)"
proof -
  show "calculate_planetary_parameters 0.29 1 288 1 1 0.5 23 24 1 0.01 = Inl (ValueError msg_D)"
    by (simp add: calculate_planetary_parameters_def validate_def)
  show "calculate_planetary_parameters 30.01 1 288 1 1 0.5 23 24 1 0.01 = Inl (ValueError msg_D)"
    by (simp add: calculate_planetary_parameters_def validate_def)
  show "calculate_planetary_parameters 0.3 1 288 1 1 0.5 23 24 1 0.01 =
     Inr (results 0.3 1 288 1 1 0.5 23 24 1 0.01 100)"
    by (rule calculate_success[OF _ earth_product]) (simp add: validate_def)
  show "calculate_planetary_parameters 30 1 288 1 1 0.5 23 24 1 0.01 =
     Inr (results 30 1 288 1 1 0.5 23 24 1 0.01 100)"
    by (rule calculate_success[OF _ earth_product]) (simp add: validate_def)
qed

lemma two_invalid_fields_example:
  "calculate_planetary_parameters 0.29 1000 288 1 2 0.5 23 24 1 0.01 = Inl (ValueError msg_D)"
  by (simp add: calculate_planetary_parameters_def validate_def)

section \<open>Binary64: rounding, bounds on the exponential, evaluations\<close>

subsection \<open>Rounding\<close>

lemma round_half_even_of_int: "round_half_even (of_int m) = m"
  by (simp add: round_half_even_def Let_def)

lemma round_half_even_error: "\<bar>of_int (round_half_even y) - y\<bar> \<le> 1 / 2"
  by (simp add: round_half_even_def Let_def)

lemma round_half_even_ge_floor: "\<lfloor>y\<rfloor> \<le> round_half_even y"
  by (simp add: round_half_even_def Let_def)

lemma round_half_even_small:
  assumes "\<bar>z\<bar> < 1 / 2"
  shows "round_half_even z = 0"
proof (cases "0 \<le> z")
  case True
  with assms have "\<lfloor>z\<rfloor> = 0" by (simp add: floor_eq_iff)
  with assms True show ?thesis by (simp add: round_half_even_def Let_def)
next
  case False
  with assms have "\<lfloor>z\<rfloor> = - 1" by (simp add: floor_eq_iff)
  with assms False show ?thesis by (simp add: round_half_even_def Let_def)
qed

lemma binade_eq:
  assumes "2 powr of_int e \<le> \<bar>x\<bar>" and "\<bar>x\<bar> < 2 powr of_int (e + 1)" and "- 1022 \<le> e"
  shows "binade x = e"
proof -
  have "0 < \<bar>x\<bar>" using assms(1) by (smt (verit) powr_gt_zero)
  then have "\<lfloor>log 2 \<bar>x\<bar>\<rfloor> = e"
    using assms(1,2) by (simp add: floor_log_eq_powr_iff)
  with assms(3) show ?thesis by (simp add: binade_def)
qed

lemma binade_subnormal:
  assumes "x \<noteq> 0" and "\<bar>x\<bar> < 2 powr (- 1022)"
  shows "binade x = - 1022"
proof -
  have "0 < \<bar>x\<bar>" using assms(1) by simp
  have "log 2 \<bar>x\<bar> < - 1022"
    using assms(2) \<open>0 < \<bar>x\<bar>\<close> by (simp add: log_less_iff)
  then have "\<lfloor>log 2 \<bar>x\<bar>\<rfloor> \<le> - 1022" by linarith
  then show ?thesis by (simp add: binade_def)
qed

lemma two_powr_1024: "(2::real) powr of_int 1024 = 2 ^ 1024"
  by simp

lemma two_powr_52: "(2::real) powr of_int 52 = 2 ^ 52"
  by simp

lemma two_powr_split: "(2::real) powr of_int k = 2 ^ 52 * 2 powr of_int (k - 52)"
proof -
  have "(2::real) powr of_int k = 2 powr (of_int 52 + of_int (k - 52))" by simp
  also have "\<dots> = 2 powr of_int 52 * 2 powr of_int (k - 52)" by (rule powr_add)
  finally show ?thesis by (simp only: two_powr_52)
qed

lemma rnd_0: "rnd 0 = Fin 0"
  by (simp add: rnd_def)

lemma rnd_exact:
  assumes lo: "2 powr of_int e \<le> \<bar>x\<bar>" and hi: "\<bar>x\<bar> < 2 powr of_int (e + 1)"
      and e: "- 1022 \<le> e" "e \<le> 1023"
      and m: "x = of_int m * 2 powr of_int (e - 52)"
  shows "rnd x = Fin x"
proof -
  have nz: "x \<noteq> 0" using lo by (smt (verit) powr_gt_zero)
  have b: "binade x = e" using lo hi e(1) by (rule binade_eq)
  have q: "x / 2 powr of_int (e - 52) = of_int m"
    using m by simp
  have "(2::real) powr of_int (e + 1) \<le> 2 powr of_int 1024"
    using e(2) by (intro powr_mono) simp_all
  then have "\<bar>x\<bar> < 2 ^ 1024" using hi by (simp only: two_powr_1024)
  then show ?thesis
    using nz b q m by (simp add: rnd_def Let_def round_half_even_of_int)
qed

lemma rnd_pow2:
  assumes "- 1022 \<le> k" and "k \<le> 1023"
  shows "rnd (2 powr of_int k) = Fin (2 powr of_int k)"
proof (rule rnd_exact[where e = k and m = "2 ^ 52"])
  show "2 powr of_int k \<le> \<bar>2 powr of_int k :: real\<bar>" by simp
  show "\<bar>2 powr of_int k :: real\<bar> < 2 powr of_int (k + 1)" by simp
  show "- 1022 \<le> k" "k \<le> 1023" by fact+
  show "(2::real) powr of_int k = of_int (2 ^ 52) * 2 powr of_int (k - 52)"
    using two_powr_split[of k] by simp
qed

lemma rnd_1: "rnd 1 = Fin 1"
  using rnd_pow2[of 0] by simp

lemma rnd_2: "rnd 2 = Fin 2"
  using rnd_pow2[of 1] by simp

lemma rnd_half: "rnd (1 / 2) = Fin (1 / 2)"
  using rnd_pow2[of "- 1"] by (simp add: powr_minus inverse_eq_divide)

lemma rnd_quarter: "rnd (1 / 4) = Fin (1 / 4)"
  using rnd_pow2[of "- 2"] by (simp add: powr_minus inverse_eq_divide)

lemma rnd_subnormal:
  assumes "0 < x" and "x < 2 powr (- 1022)"
  shows "\<exists>y. rnd x = Fin y \<and> \<bar>y - x\<bar> \<le> 2 powr (- 1075)"
proof -
  define q :: real where "q = 2 powr (- 1074)"
  define y where "y = of_int (round_half_even (x / q)) * q"
  have qpos: "0 < q" by (simp add: q_def)
  have b: "binade x = - 1022"
    using assms by (intro binade_subnormal) simp_all
  have "\<bar>y - x\<bar> = \<bar>of_int (round_half_even (x / q)) - x / q\<bar> * q"
    using qpos by (simp add: y_def abs_mult field_simps flip: abs_mult)
  also have "\<dots> \<le> (1 / 2) * q"
    using round_half_even_error[of "x / q"] qpos by (intro mult_right_mono) simp_all
  also have "\<dots> = 2 powr (- 1075)"
    unfolding q_def by (simp add: powr_minus)
  finally have err: "\<bar>y - x\<bar> \<le> 2 powr (- 1075)" .
  have "(2::real) powr (- 1075) \<le> 1" "(2::real) powr (- 1022) \<le> 1"
    by (simp_all add: powr_minus inverse_le_1_iff)
  with err assms have "\<bar>y\<bar> \<le> 2" by linarith
  moreover have "(2::real) < 2 ^ 1024" by simp
  ultimately have "\<bar>y\<bar> < 2 ^ 1024" by linarith
  then have "rnd x = Fin y"
    using assms(1) b by (simp add: rnd_def Let_def y_def q_def)
  with err show ?thesis by blast
qed

lemma rnd_tiny:
  assumes "\<bar>x\<bar> < 2 powr (- 1075)"
  shows "rnd x = Fin 0"
proof (cases "x = 0")
  case True
  then show ?thesis by (simp add: rnd_0)
next
  case False
  define q :: real where "q = 2 powr (- 1074)"
  have qpos: "0 < q" by (simp add: q_def)
  have "(2::real) powr (- 1075) \<le> 2 powr (- 1022)" by simp
  with assms have "\<bar>x\<bar> < 2 powr (- 1022)" by linarith
  with False have b: "binade x = - 1022" by (rule binade_subnormal)
  have "2 powr (- 1075) = q / 2" unfolding q_def by (simp add: powr_minus)
  with assms qpos have "\<bar>x / q\<bar> < 1 / 2" by (simp add: field_simps)
  then have "round_half_even (x / q) = 0"
    by (rule round_half_even_small)
  then show ?thesis
    using False b by (simp add: rnd_def Let_def q_def)
qed

lemma rnd_overflow:
  assumes "2 ^ 1024 \<le> x"
  shows "rnd x = PInf"
proof -
  have xpos: "0 < x" using assms by (smt (verit) zero_less_power)
  define e where "e = \<lfloor>log 2 x\<rfloor>"
  have elo: "2 powr of_int e \<le> x"
    using xpos floor_log_eq_powr_iff[of x 2 e] by (simp add: e_def)
  have "(2::real) powr of_int 1024 \<le> x" using assms by (simp only: two_powr_1024)
  then have "of_int 1024 \<le> log 2 x" using xpos by (subst le_log_iff) simp_all
  then have e1024: "1024 \<le> e" unfolding e_def by linarith
  then have b: "binade x = e" using xpos by (simp add: binade_def e_def)
  define q :: real where "q = 2 powr of_int (e - 52)"
  have qpos: "0 < q" by (simp add: q_def)
  have "2 powr of_int e = 2 ^ 52 * q"
    unfolding q_def by (rule two_powr_split)
  with elo qpos have "2 ^ 52 \<le> x / q" by (simp add: field_simps)
  then have "(2 ^ 52 :: int) \<le> \<lfloor>x / q\<rfloor>" by (simp add: le_floor_iff)
  then have "(2 ^ 52 :: int) \<le> round_half_even (x / q)"
    using round_half_even_ge_floor[of "x / q"] by linarith
  then have "(2 ^ 52 :: real) \<le> of_int (round_half_even (x / q))"
    by (metis of_int_le_iff of_int_numeral of_int_power)
  then have "2 ^ 52 * q \<le> of_int (round_half_even (x / q)) * q"
    using qpos by (intro mult_right_mono) simp_all
  with \<open>2 powr of_int e = 2 ^ 52 * q\<close> have "2 powr of_int e \<le> of_int (round_half_even (x / q)) * q"
    by simp
  moreover have "(2::real) powr of_int 1024 \<le> 2 powr of_int e"
    using e1024 by (intro powr_mono) simp_all
  ultimately have "2 ^ 1024 \<le> of_int (round_half_even (x / q)) * q"
    by (simp only: two_powr_1024)
  then have "2 ^ 1024 \<le> \<bar>of_int (round_half_even (x / q)) * q\<bar>"
    by linarith
  then show ?thesis
    using xpos b by (simp add: rnd_def Let_def q_def)
qed

subsection \<open>Bounds on the exponential\<close>

text \<open>
  From \<open>2.69 \<le> e \<le> 2.74\<close>: \<open>exp 720\<close> is at least \<open>2 ^ 1026\<close>, \<open>exp 728\<close> at most
  \<open>2 ^ 1062\<close>, and \<open>exp 1000\<close> at least \<open>2 ^ 1425\<close>.
\<close>

lemma exp1_lower: "269 / 100 \<le> exp (1::real)"
proof -
  have "(1 + 1 / of_nat 64) ^ 64 \<le> exp (1::real)"
    by (rule exp_ge_one_plus_x_over_n_power_n) simp_all
  moreover have "(269 / 100 :: real) \<le> (1 + 1 / of_nat 64) ^ 64"
    by (simp add: power_divide field_simps)
  ultimately show ?thesis by linarith
qed

lemma exp1_upper: "exp (1::real) \<le> 274 / 100"
proof -
  have "exp (1 / 64 :: real) \<le> 1 + 1 / 64 + (1 / 64)\<^sup>2"
    by (rule exp_bound) simp_all
  then have a: "exp (1 / 64 :: real) \<le> 4161 / 4096"
    by (simp add: power2_eq_square)
  have "exp (1::real) = exp (of_nat 64 * (1 / 64))" by simp
  also have "\<dots> = exp (1 / 64) ^ 64" by (rule exp_of_nat_mult)
  also have "\<dots> \<le> (4161 / 4096) ^ 64"
    using a by (intro power_mono) simp_all
  also have "\<dots> \<le> 274 / 100"
    by (simp add: power_divide field_simps)
  finally show ?thesis .
qed

lemma exp_nat: "exp (of_nat n :: real) = exp 1 ^ n"
  using exp_of_nat_mult[of n "1::real"] by simp

lemma exp_720_lower: "(2::real) ^ 1026 \<le> exp 720"
proof -
  have "(2::real) ^ 57 \<le> (269 / 100) ^ 40"
    by (simp add: power_divide field_simps)
  also have "\<dots> \<le> exp 1 ^ 40"
    using exp1_lower by (intro power_mono) simp_all
  finally have "((2::real) ^ 57) ^ 18 \<le> (exp 1 ^ 40) ^ 18"
    by (intro power_mono) simp_all
  then have "(2::real) ^ (57 * 18) \<le> exp 1 ^ (40 * 18)"
    by (simp only: power_mult)
  moreover have "exp (720::real) = exp 1 ^ 720"
    using exp_nat[of 720] by simp
  ultimately show ?thesis by simp
qed

lemma exp_728_upper: "exp (728::real) \<le> 2 ^ 1062"
proof -
  have e: "0 \<le> exp (1::real)" by simp
  have "exp (1::real) ^ 24 \<le> (274 / 100) ^ 24"
    using exp1_upper by (intro power_mono) simp_all
  also have "\<dots> \<le> 2 ^ 35"
    by (simp add: power_divide field_simps)
  finally have "(exp (1::real) ^ 24) ^ 30 \<le> (2 ^ 35) ^ 30"
    by (intro power_mono) simp_all
  then have a: "exp (1::real) ^ (24 * 30) \<le> 2 ^ (35 * 30)"
    by (simp only: power_mult)
  have "exp (1::real) ^ 8 \<le> (274 / 100) ^ 8"
    using exp1_upper by (intro power_mono) simp_all
  also have "\<dots> \<le> 2 ^ 12"
    by (simp add: power_divide field_simps)
  finally have b: "exp (1::real) ^ 8 \<le> 2 ^ 12" .
  have "exp (728::real) = exp 1 ^ 728"
    using exp_nat[of 728] by simp
  also have "\<dots> = exp 1 ^ (24 * 30) * exp 1 ^ 8"
    by (simp flip: power_add)
  also have "\<dots> \<le> 2 ^ (35 * 30) * 2 ^ 12"
    using a b by (intro mult_mono) simp_all
  also have "\<dots> = 2 ^ 1062"
    by (simp flip: power_add)
  finally show ?thesis .
qed

lemma exp_1000_lower: "(2::real) ^ 1425 \<le> exp 1000"
proof -
  have "(2::real) ^ 57 \<le> (269 / 100) ^ 40"
    by (simp add: power_divide field_simps)
  also have "\<dots> \<le> exp 1 ^ 40"
    using exp1_lower by (intro power_mono) simp_all
  finally have "((2::real) ^ 57) ^ 25 \<le> (exp 1 ^ 40) ^ 25"
    by (intro power_mono) simp_all
  then have "(2::real) ^ (57 * 25) \<le> exp 1 ^ (40 * 25)"
    by (simp only: power_mult)
  moreover have "exp (1000::real) = exp 1 ^ 1000"
    using exp_nat[of 1000] by simp
  ultimately show ?thesis by simp
qed

lemma exp_neg_bounds:
  fixes X :: real
  assumes "720 \<le> X" and "X \<le> 728"
  shows "2 powr (- 1062) \<le> exp (- X)" and "exp (- X) \<le> 2 powr (- 1026)"
proof -
  have "exp X \<le> exp 728" using assms(2) by simp
  also have "\<dots> \<le> 2 ^ 1062" by (rule exp_728_upper)
  also have "\<dots> = 2 powr 1062" by simp
  finally have "inverse (2 powr 1062) \<le> inverse (exp X)"
    by (intro le_imp_inverse_le) simp_all
  then show "2 powr (- 1062) \<le> exp (- X)"
    by (simp only: powr_minus exp_minus)
  have "(2::real) powr 1026 = 2 ^ 1026" by simp
  also have "\<dots> \<le> exp 720" by (rule exp_720_lower)
  also have "\<dots> \<le> exp X" using assms(1) by simp
  finally have "inverse (exp X) \<le> inverse (2 powr 1026)"
    by (intro le_imp_inverse_le) simp_all
  then show "exp (- X) \<le> 2 powr (- 1026)"
    by (simp only: powr_minus exp_minus)
qed

lemma powr_unit:
  "(2::real) powr (- 1062) = 2 ^ 13 * 2 powr (- 1075)"
  "(2::real) powr (- 1026) = 2 ^ 49 * 2 powr (- 1075)"
  "(2::real) powr (- 1022) = 2 ^ 53 * 2 powr (- 1075)"
  "(2::real) powr (- 1024) = 2 ^ 51 * 2 powr (- 1075)"
proof -
  have a: "(2::real) powr (of_nat k + b) = 2 ^ k * 2 powr b" for k b
    by (simp add: powr_add powr_realpow)
  show "(2::real) powr (- 1062) = 2 ^ 13 * 2 powr (- 1075)"
    using a[of 13 "- 1075"] by simp
  show "(2::real) powr (- 1026) = 2 ^ 49 * 2 powr (- 1075)"
    using a[of 49 "- 1075"] by simp
  show "(2::real) powr (- 1022) = 2 ^ 53 * 2 powr (- 1075)"
    using a[of 53 "- 1075"] by simp
  show "(2::real) powr (- 1024) = 2 ^ 51 * 2 powr (- 1075)"
    using a[of 51 "- 1075"] by simp
qed

subsection \<open>Evaluating the function for a large radiation level\<close>

text \<open>
  For \<open>720 \<le> X \<le> 728\<close> the factor \<open>f_X\<close> is a positive subnormal double. With
  \<open>T = 288\<close>, \<open>P = 1\<close>, \<open>W = 1\<close>, \<open>B = 1\<close>, \<open>G = 1\<close> the other factors are \<open>1\<close>,
  \<open>1/2\<close>, \<open>1\<close>, \<open>1/2\<close>, \<open>1\<close>, the product is a positive subnormal double below
  \<open>2 ^ -1027\<close>, its reciprocal overflows to infinity without an exception, and so does
  \<open>P_L\<close>. At \<open>X = 1000\<close> the factor \<open>f_X\<close> is zero and line 68 raises.
\<close>

lemma f_X_f64_subnormal:
  fixes X :: real
  assumes "720 \<le> X" and "X \<le> 728"
  shows "\<exists>y. f_X_f64 X = Inr (Fin y) \<and>
             (2 ^ 13 - 1) * 2 powr (- 1075) \<le> y \<and> y \<le> (2 ^ 49 + 1) * 2 powr (- 1075)"
proof -
  define u :: real where "u = 2 powr (- 1075)"
  have upos: "0 < u" by (simp add: u_def)
  have lo: "2 ^ 13 * u \<le> exp (- X)" and hi: "exp (- X) \<le> 2 ^ 49 * u"
    using exp_neg_bounds[OF assms] by (simp_all only: powr_unit u_def)
  have "exp (- X) < 2 ^ 53 * u" using hi upos by simp
  then have "exp (- X) < 2 powr (- 1022)" by (simp only: powr_unit u_def)
  from rnd_subnormal[OF _ this]
  obtain y where y: "rnd (exp (- X)) = Fin y" "\<bar>y - exp (- X)\<bar> \<le> u"
    unfolding u_def by auto
  have "f_X_f64 X = Inr (Fin y)"
    using y(1) by (simp add: f_X_f64_def)
  moreover have "(2 ^ 13 - 1) * u \<le> y" using lo y(2) by (simp add: algebra_simps) 
  moreover have "y \<le> (2 ^ 49 + 1) * u" using hi y(2) by (simp add: algebra_simps)
  ultimately show ?thesis unfolding u_def by blast
qed

lemma f_X_f64_positive:
  fixes X :: real
  assumes "720 \<le> X" and "X \<le> 728"
  shows "\<exists>y. f_X_f64 X = Inr (Fin y) \<and> 0 < y"
proof -
  from f_X_f64_subnormal[OF assms] obtain y
    where a: "f_X_f64 X = Inr (Fin y)" and b: "(2 ^ 13 - 1) * 2 powr (- 1075) \<le> y"
    by blast
  have "(0::real) < 2 powr (- 1075)" by simp
  then have "(0::real) < (2 ^ 13 - 1) * 2 powr (- 1075)"
    by (intro mult_pos_pos) simp_all
  with b have "0 < y" by linarith
  with a show ?thesis by blast
qed

lemma f_X_f64_1000: "f_X_f64 1000 = Inr (Fin 0)"
proof -
  have "(2::real) powr 1075 < 2 powr 1425" by (intro powr_less_mono) simp_all
  also have "\<dots> = 2 ^ 1425" by simp
  also have "\<dots> \<le> exp 1000" by (rule exp_1000_lower)
  finally have "inverse (exp (1000::real)) < inverse (2 powr 1075)"
    by (intro less_imp_inverse_less) simp_all
  then have "exp (- 1000 :: real) < 2 powr (- 1075)"
    by (simp only: powr_minus exp_minus)
  then have "\<bar>exp (- 1000 :: real)\<bar> < 2 powr (- 1075)" by simp
  then have "rnd (exp (- 1000)) = Fin 0" by (rule rnd_tiny)
  then show ?thesis by (simp add: f_X_f64_def)
qed

lemma f_T_f64_288: "f_T_f64 288 = Inr (Fin 1)"
  by (simp add: f_T_f64_def fsub_def T_E_def bind_e_def rnd_0 rnd_1 py_min_def py_max_def)

lemma f_P_f64_1: "f_P_f64 1 = Inr (Fin (1 / 2))"
  using rnd_2 rnd_half by (simp add: f_P_f64_def)

lemma f_B_f64_1: "f_B_f64 1 = Inr (Fin (1 / 2))"
  using rnd_2 rnd_half by (simp add: f_B_f64_def)

lemma product_prefix:
  "fmul (fmul (fmul (fmul (Fin 1) (Fin (1 / 2))) (Fin 1)) (Fin (1 / 2))) (Fin 1) = Fin (1 / 4)"
  using rnd_half rnd_quarter by simp

lemma P_L_inf:
  assumes "0 < y"
  shows "fmul (fmul (fmul (fmul (fmul (fmul (fmul (Fin 100) PInf) (Fin 1)) (Fin (1 / 2)))
           (Fin 1)) (Fin (1 / 2))) (Fin 1)) (Fin y) = PInf"
  using assms by (simp add: inf_of_sign_def)

lemma two_1024_unit: "(2::real) ^ 1024 * (2 ^ 51 * 2 powr (- 1075)) = 1"
proof -
  have a: "(2::real) ^ 1024 = 2 powr 1024" by simp
  have "(2::real) powr 1024 * 2 powr (- 1024) = 2 powr (1024 + (- 1024))"
    by (rule powr_add[symmetric])
  also have "\<dots> = 1" by simp
  finally have "(2::real) powr 1024 * 2 powr (- 1024) = 1" .
  then have "(2::real) powr 1024 * (2 ^ 51 * 2 powr (- 1075)) = 1"
    by (simp only: powr_unit)
  then show ?thesis by (simp only: a)
qed

lemma reciprocal_overflows:
  assumes "0 < z" and "z \<le> 2 ^ 48 * 2 powr (- 1075)"
  shows "fdiv (Fin 1) (Fin z) = Inr PInf"
proof -
  define u :: real where "u = 2 powr (- 1075)"
  have upos: "0 < u" by (simp add: u_def)
  have "(2::real) ^ 48 * u \<le> 2 ^ 51 * u"
    using upos by (intro mult_right_mono) simp_all
  with assms(2) have "z \<le> 2 ^ 51 * u" unfolding u_def by linarith
  then have "2 ^ 1024 * z \<le> 2 ^ 1024 * (2 ^ 51 * u)"
    by (intro mult_left_mono) simp_all
  then have "2 ^ 1024 * z \<le> 1"
    by (simp only: two_1024_unit u_def)
  then have "2 ^ 1024 \<le> 1 / z"
    using assms(1) by (simp only: pos_le_divide_eq)
  then have "rnd (1 / z) = PInf" by (rule rnd_overflow)
  then show ?thesis using assms(1) by simp
qed

lemma overflow_run:
  fixes X :: real
  assumes v: "validate D M 288 1 1 1 \<theta> R 1 X = None"
      and X: "720 \<le> X" "X \<le> 728"
  shows "calculate_planetary_parameters_f64 D M 288 1 1 1 \<theta> R 1 X =
           Inr (results_f64 D M 288 1 1 1 \<theta> R 1 X PInf)"
proof -
  define u :: real where "u = 2 powr (- 1075)"
  have upos: "0 < u" by (simp add: u_def)
  from f_X_f64_subnormal[OF X] obtain y
    where fX: "f_X_f64 X = Inr (Fin y)"
      and ylo: "(2 ^ 13 - 1) * u \<le> y" and yhi: "y \<le> (2 ^ 49 + 1) * u"
    unfolding u_def by blast
  have ylo': "8191 * u \<le> y" using ylo by simp
  have yhi': "y \<le> 562949953421313 * u" using yhi by simp
  have ypos: "0 < y" using ylo' upos by linarith
  have "1 / 4 * y < 9007199254740992 * u" using yhi' upos by linarith
  then have "1 / 4 * y < 2 ^ 53 * u" by simp
  then have sub: "1 / 4 * y < 2 powr (- 1022)" by (simp only: powr_unit u_def)
  have "0 < 1 / 4 * y" using ypos by simp
  from rnd_subnormal[OF this sub] obtain z
    where z: "rnd (1 / 4 * y) = Fin z" and zerr: "\<bar>z - 1 / 4 * y\<bar> \<le> u"
    unfolding u_def by blast
  have zpos: "0 < z" using zerr ylo' upos by linarith
  have "z \<le> 281474976710656 * u" using zerr yhi' upos by linarith
  then have zhi: "z \<le> 2 ^ 48 * u" by simp
  have prod: "fmul (fmul (fmul (fmul (fmul (Fin 1) (Fin (1 / 2))) (Fin 1)) (Fin (1 / 2)))
                (Fin 1)) (Fin y) = Fin z"
    by (subst product_prefix) (simp only: fmul.simps z)
  have C: "fdiv (Fin 1) (Fin z) = Inr PInf"
    using zpos zhi unfolding u_def by (rule reciprocal_overflows)
  show ?thesis
    unfolding calculate_planetary_parameters_f64_def
    by (simp only: v option.case f_T_f64_288 f_P_f64_1 f_B_f64_1 fX f_W_f64_def f_G_f64_def
        bind_e_def sum.case Let_def prod C P_L_inf[OF ypos])
qed

lemma lookup_f64_probability:
  "lookup_f64 (results_f64 D M T P W B \<theta> R G X P_L) key_probability =
     Some (FNum (py_round2_f64 P_L))"
  by (simp add: lookup_f64_def results_f64_def key_probability_def)

lemma upper_boundary_X_raises:
  "validate 1 1 288 1 1 1 23 24 1 1000 = None \<and>
   calculate_planetary_parameters_f64 1 1 288 1 1 1 23 24 1 1000 = Inl ZeroDivisionError"
proof -
  have v: "validate 1 1 288 1 1 1 23 24 1 1000 = None" by (simp add: validate_def)
  have prod: "fmul (fmul (fmul (fmul (fmul (Fin 1) (Fin (1 / 2))) (Fin 1)) (Fin (1 / 2)))
                (Fin 1)) (Fin 0) = Fin 0"
    by (subst product_prefix) (simp add: rnd_0)
  have z: "fdiv (Fin 1) (Fin 0) = Inl ZeroDivisionError" by simp
  have "calculate_planetary_parameters_f64 1 1 288 1 1 1 23 24 1 1000 = Inl ZeroDivisionError"
    unfolding calculate_planetary_parameters_f64_def
    by (simp only: v option.case f_T_f64_288 f_P_f64_1 f_B_f64_1 f_X_f64_1000 f_W_f64_def
        f_G_f64_def bind_e_def sum.case Let_def prod z)
  with v show ?thesis by simp
qed

section \<open>The claims\<close>

text \<open>
  Claim C1. The claim asks that every valid profile whose six factors are strictly
  positive returns the probability 100.00. In binary64 the profile
  \<open>D = 1, M = 1, T = 288, P = 1, W = 1, B = 1, \<theta> = 23, R = 24, G = 1, X = 720\<close> passes
  validation and has the six factors \<open>1, 1/2, 1, 1/2, 1\<close> and a positive \<open>f_X\<close>, yet the
  reciprocal of their product overflows and the call returns the probability
  \<open>inf\<close>: the constant \<open>C\<close> does not cancel the product.
\<close>

theorem positive_factors_return_inf:
  "validate 1 1 288 1 1 1 23 24 1 720 = None \<and>
   f_T_f64 288 = Inr (Fin 1) \<and> f_P_f64 1 = Inr (Fin (1 / 2)) \<and> f_W_f64 1 = Fin 1 \<and>
   f_B_f64 1 = Inr (Fin (1 / 2)) \<and> f_G_f64 1 = Fin 1 \<and>
   (\<exists>y. f_X_f64 720 = Inr (Fin y) \<and> 0 < y) \<and>
   (\<exists>r. calculate_planetary_parameters_f64 1 1 288 1 1 1 23 24 1 720 = Inr r \<and>
        lookup_f64 r key_probability = Some (FNum PInf))"
proof -
  have v: "validate 1 1 288 1 1 1 23 24 1 720 = None" by (simp add: validate_def)
  have "calculate_planetary_parameters_f64 1 1 288 1 1 1 23 24 1 720 =
          Inr (results_f64 1 1 288 1 1 1 23 24 1 720 PInf)"
    by (rule overflow_run[OF v]) simp_all
  then have r: "\<exists>r. calculate_planetary_parameters_f64 1 1 288 1 1 1 23 24 1 720 = Inr r \<and>
        lookup_f64 r key_probability = Some (FNum PInf)"
    by (simp add: lookup_f64_probability)
  have x: "\<exists>y. f_X_f64 720 = Inr (Fin y) \<and> 0 < y"
    by (rule f_X_f64_positive) simp_all
  have w: "f_W_f64 1 = Fin 1" "f_G_f64 1 = Fin 1"
    by (simp_all add: f_W_f64_def f_G_f64_def)
  from v r x w f_T_f64_288 f_P_f64_1 f_B_f64_1 show ?thesis by blast
qed

text \<open>
  Claim C2. The claim asks that a validated profile with a zero factor meets a degeneracy
  policy (a named error or the result 0) and no arithmetic fault. The source has no such
  policy: for the Earth-like profile with \<open>W = 0\<close> the checks pass and line 68 raises
  \<^verbatim>\<open>ZeroDivisionError\<close>.
\<close>

theorem no_water_raises_ZeroDivisionError:
  "validate 1 1 288 1 0 0.5 23 24 1 0.01 = None \<and>
   calculate_planetary_parameters 1 1 288 1 0 0.5 23 24 1 0.01 = Inl ZeroDivisionError"
proof -
  have v: "validate 1 1 288 1 0 0.5 23 24 1 0.01 = None" by (simp add: validate_def)
  have "calculate_planetary_parameters 1 1 288 1 0 0.5 23 24 1 0.01 = Inl ZeroDivisionError"
    by (rule calculate_degenerate[OF v]) (simp add: f_W_def)
  with v show ?thesis by simp
qed

text \<open>
  Claim C3. The claim asks that a value at a boundary of a field's interval passes
  validation and that the call succeeds. At the lower boundary \<open>B = 0\<close> of the magnetic
  field, with every other field as for the Earth, the checks pass and the call raises
  \<^verbatim>\<open>ZeroDivisionError\<close> at line 68.
\<close>

theorem boundary_B_raises_ZeroDivisionError:
  "validate 1 1 288 1 1 0 23 24 1 0.01 = None \<and>
   calculate_planetary_parameters 1 1 288 1 1 0 23 24 1 0.01 = Inl ZeroDivisionError"
proof -
  have v: "validate 1 1 288 1 1 0 23 24 1 0.01 = None" by (simp add: validate_def)
  have "calculate_planetary_parameters 1 1 288 1 1 0 23 24 1 0.01 = Inl ZeroDivisionError"
    by (rule calculate_degenerate[OF v]) (simp add: f_B_def)
  with v show ?thesis by simp
qed

text \<open>
  Claim C4. Validation examines the fields in the order D, M, T, P, W, B, theta, R, G, X
  and raises at the first field out of range: the call raises \<^verbatim>\<open>ValueError\<close> with a
  message exactly when that message belongs to the first failing check of the list.
\<close>

theorem validation_first_violation:
  "calculate_planetary_parameters D M T P W B \<theta> R G X = Inl (ValueError m) \<longleftrightarrow>
     first_violation (range_checks D M T P W B \<theta> R G X) = Some (ValueError m)"
  by (simp add: calculate_ValueError_iff validate_first_violation)

text \<open>
  Claim C5. With D, M, T and P in range (the checks that come before), the call raises
  the \<^verbatim>\<open>ValueError\<close> naming the water presence exactly when \<open>W\<close> is neither 0 nor 1.
\<close>

theorem water_presence_domain:
  assumes "0.3 \<le> D \<and> D \<le> 30" and "0.1 \<le> M \<and> M \<le> 300" and "50 \<le> T \<and> T \<le> 900"
      and "1 / 10 ^ 5 \<le> P \<and> P \<le> 100"
  shows "calculate_planetary_parameters D M T P W B \<theta> R G X = Inl (ValueError msg_W) \<longleftrightarrow>
           W \<noteq> 0 \<and> W \<noteq> 1"
  using assms msg_W_distinct
  by (simp add: calculate_ValueError_iff validate_def)

theorem water_presence_domain_witness:
  "((0.3::real) \<le> 1 \<and> (1::real) \<le> 30) \<and> ((0.1::real) \<le> 1 \<and> (1::real) \<le> 300) \<and>
   ((50::real) \<le> 288 \<and> (288::real) \<le> 900) \<and> ((1::real) / 10 ^ 5 \<le> 1 \<and> (1::real) \<le> 100) \<and>
   calculate_planetary_parameters 1 1 288 1 0.5 0.5 23 24 1 0.01 = Inl (ValueError msg_W) \<and>
   calculate_planetary_parameters 1 1 288 1 2 0.5 23 24 1 0.01 = Inl (ValueError msg_W) \<and>
   calculate_planetary_parameters 1 1 288 1 (- 1) 0.5 23 24 1 0.01 = Inl (ValueError msg_W) \<and>
   calculate_planetary_parameters 1 1 288 1 1 0.5 23 24 1 0.01 \<noteq> Inl (ValueError msg_W) \<and>
   calculate_planetary_parameters 1 1 288 1 0 0.5 23 24 1 0.01 \<noteq> Inl (ValueError msg_W)"
proof -
  have h: "(0.3::real) \<le> 1 \<and> (1::real) \<le> 30" "(0.1::real) \<le> 1 \<and> (1::real) \<le> 300"
    "(50::real) \<le> 288 \<and> (288::real) \<le> 900" "(1::real) / 10 ^ 5 \<le> 1 \<and> (1::real) \<le> 100"
    by simp_all
  show ?thesis
    using h water_presence_domain[of 1 1 288 1 "0.5" "0.5" 23 24 1 "0.01"]
      water_presence_domain[of 1 1 288 1 2 "0.5" 23 24 1 "0.01"]
      water_presence_domain[of 1 1 288 1 "- 1" "0.5" 23 24 1 "0.01"]
      water_presence_domain[of 1 1 288 1 1 "0.5" 23 24 1 "0.01"]
      water_presence_domain[of 1 1 288 1 0 "0.5" 23 24 1 "0.01"]
    by simp
qed



text \<open>
  Claim C7. The entry "Water Presence" of the dictionary built at lines 74 to 86 is the
  string "Yes" when \<open>W = 1\<close> and the string "No" when \<open>W = 0\<close>; and every report that the
  call returns carries that entry.
\<close>

theorem water_presence_echo:
  "(W = 1 \<longrightarrow>
      lookup (results D M T P W B \<theta> R G X P_L) ''Water Presence'' = Some (Str ''Yes'')) \<and>
   (W = 0 \<longrightarrow>
      lookup (results D M T P W B \<theta> R G X P_L) ''Water Presence'' = Some (Str ''No'')) \<and>
   (calculate_planetary_parameters D M T P W B \<theta> R G X = Inr r \<longrightarrow>
      lookup r ''Water Presence'' = Some (Str (if W = 1 then ''Yes'' else ''No'')))"
proof -
  have a: "lookup (results D M T P W B \<theta> R G X p) ''Water Presence'' =
             Some (Str (if W = 1 then ''Yes'' else ''No''))" for p
    by (simp add: lookup_def results_def)
  have yes: "W = 1 \<longrightarrow>
      lookup (results D M T P W B \<theta> R G X P_L) ''Water Presence'' = Some (Str ''Yes'')"
    by (simp add: lookup_def results_def)
  have no: "W = 0 \<longrightarrow>
      lookup (results D M T P W B \<theta> R G X P_L) ''Water Presence'' = Some (Str ''No'')"
    by (simp add: lookup_def results_def)
  have ret: "calculate_planetary_parameters D M T P W B \<theta> R G X = Inr r \<longrightarrow>
      lookup r ''Water Presence'' = Some (Str (if W = 1 then ''Yes'' else ''No''))"
  proof
    assume "calculate_planetary_parameters D M T P W B \<theta> R G X = Inr r"
    from calculate_Inr[OF this] a[of 100]
    show "lookup r ''Water Presence'' = Some (Str (if W = 1 then ''Yes'' else ''No''))"
      by simp
  qed
  from yes no ret show ?thesis by blast
qed

theorem water_presence_echo_witness:
  "lookup (results 1 1 288 1 1 0.5 23 24 1 0.01 100) ''Water Presence'' = Some (Str ''Yes'') \<and>
   lookup (results 1 1 288 1 0 0.5 23 24 1 0.01 100) ''Water Presence'' = Some (Str ''No'') \<and>
   calculate_planetary_parameters 1 1 288 1 1 0.5 23 24 1 0.01 =
     Inr (results 1 1 288 1 1 0.5 23 24 1 0.01 100)"
  using water_presence_echo[of 1 1 1 288 1 "0.5" 23 24 1 "0.01" 100
      "results 1 1 288 1 1 0.5 23 24 1 0.01 100"]
    water_presence_echo[of 0 1 1 288 1 "0.5" 23 24 1 "0.01" 100 "[]"]
    earth_success
  by simp

text \<open>
  Claim C8. The temperature factor is \<open>clamp(exp(-|T - 288| / 288), 0, 1)\<close>; it is 1
  exactly when \<open>T = 288\<close> and is at most 1, hence below 1 for every other temperature.
  (Exact arithmetic; the statement holds for every \<open>T\<close>, in range or not.)
\<close>

theorem temperature_factor:
  "f_T T = clamp (exp (- \<bar>T - 288\<bar> / 288)) 0 1 \<and> (f_T T = 1 \<longleftrightarrow> T = 288) \<and> f_T T \<le> 1"
  using f_T_eq_1_iff[of T] f_T_le_1[of T]
  by (simp add: f_T_exp T_E_def clamp_def)

text \<open>
  Claim C9. The claim asks that the derived entry of every returned report is a number
  of two decimals between 0 and 100. In binary64 the profile
  \<open>D = 1, M = 1, T = 288, P = 1, W = 1, B = 1, \<theta> = 23, R = 24, G = 1, X = 725\<close> passes
  validation and the call returns a report whose entry
  "Habitability Probability (0-100)" is \<open>inf\<close>.
\<close>

theorem returned_probability_inf:
  "validate 1 1 288 1 1 1 23 24 1 725 = None \<and>
   (\<exists>r. calculate_planetary_parameters_f64 1 1 288 1 1 1 23 24 1 725 = Inr r \<and>
        lookup_f64 r key_probability = Some (FNum PInf))"
proof -
  have v: "validate 1 1 288 1 1 1 23 24 1 725 = None" by (simp add: validate_def)
  have "calculate_planetary_parameters_f64 1 1 288 1 1 1 23 24 1 725 =
          Inr (results_f64 1 1 288 1 1 1 23 24 1 725 PInf)"
    by (rule overflow_run[OF v]) simp_all
  with v show ?thesis by (simp add: lookup_f64_probability)
qed

text \<open>
  Claim C10. In exact arithmetic, for a profile that passes validation the product of
  the six factors is zero exactly when \<open>W = 0\<close>, \<open>B = 0\<close> or \<open>G = 0\<close>; the factors
  \<open>f_T\<close>, \<open>f_P\<close> and \<open>f_X\<close> are strictly positive; and when \<open>W\<close>, \<open>B\<close> and \<open>G\<close> are
  all nonzero the division of line 68 is defined and the call returns a report.
\<close>

theorem factor_product_zero_iff:
  assumes "validate D M T P W B \<theta> R G X = None"
  shows "(factor_product T P W B G X = 0 \<longleftrightarrow> W = 0 \<or> B = 0 \<or> G = 0) \<and>
         0 < f_T T \<and> 0 < f_P P \<and> 0 < f_X X \<and>
         (W \<noteq> 0 \<and> B \<noteq> 0 \<and> G \<noteq> 0 \<longrightarrow>
            (\<exists>r. calculate_planetary_parameters D M T P W B \<theta> R G X = Inr r))"
proof -
  from assms have P: "0 < P" and B: "0 \<le> B"
    by (simp_all add: validate_None_iff)
  have fT: "0 < f_T T" by (rule f_T_pos)
  have fP: "0 < f_P P" using P by (rule f_P_pos)
  have fX: "0 < f_X X" by (rule f_X_pos)
  have z: "factor_product T P W B G X = 0 \<longleftrightarrow> W = 0 \<or> B = 0 \<or> G = 0"
    using fT fP fX f_B_eq_0_iff[OF B]
    by (simp add: factor_product_def f_W_def f_G_def)
  have "\<exists>r. calculate_planetary_parameters D M T P W B \<theta> R G X = Inr r"
    if "W \<noteq> 0 \<and> B \<noteq> 0 \<and> G \<noteq> 0"
  proof -
    from that z have "f_T T * f_P P * f_W W * f_B B * f_G G * f_X X \<noteq> 0"
      by (simp add: factor_product_def)
    from calculate_success[OF assms this] show ?thesis by simp
  qed
  with z fT fP fX show ?thesis by blast
qed

theorem factor_product_zero_iff_witness:
  "validate 1 1 288 1 1 0.5 23 24 1 0.01 = None \<and>
   factor_product 288 1 1 0.5 1 0.01 \<noteq> 0 \<and>
   0 < f_T 288 \<and> 0 < f_P 1 \<and> 0 < f_X 0.01 \<and>
   (\<exists>r. calculate_planetary_parameters 1 1 288 1 1 0.5 23 24 1 0.01 = Inr r)"
  using factor_product_zero_iff[OF earth_valid] earth_valid
  by simp

end
